theory Spec2Isabelle
  imports Complex_Main "HOL-Library.Multiset"
begin

section \<open>The mission table\<close>

text \<open>
  The script \<^verbatim>\<open>space_race_project.py\<close> is one straight-line pipeline over a pandas
  table. A table is modelled row-wise, as a list of records in file order. A text cell
  is a \<open>string option\<close>: \<open>None\<close> is the null value pandas stores for an empty
  field (NaN), \<open>Some s\<close> the text of the field. The columns the script touches are
  read as text.
\<close>

type_synonym cell = "string option"

text \<open>A row of \<^verbatim>\<open>mission_launches.csv\<close> as \<^verbatim>\<open>pd.read_csv\<close> returns it (line 22),
  under the header names of the file.\<close>

record csv_row =
  Organisation :: cell
  Location :: cell
  Date :: cell
  Detail :: cell
  Rocket_Status :: cell
  Price :: cell
  Mission_Status :: cell

text \<open>
  A parsed date. The script reads four attributes of it through the \<^verbatim>\<open>.dt\<close>
  accessor (lines 78--82): the year, the month, the month's name and the day's name.
\<close>

record timestamp =
  ts_year :: int
  ts_month :: nat
  ts_month_name :: string
  ts_day_name :: string

text \<open>
  The table after lines 52--72: the columns renamed by \<^verbatim>\<open>column_mapping\<close>, the two
  columns derived from string splits, and the date column converted by
  \<^verbatim>\<open>pd.to_datetime(..., errors="coerce")\<close>, where \<open>None\<close> is the null date (NaT).
\<close>

record launch =
  agency :: cell
  location_name :: cell
  date :: "timestamp option"
  rocket :: cell
  rocket_status :: cell
  price :: cell
  status :: cell
  country_full :: cell
  rocket_family :: cell

text \<open>
  The table after lines 78--86: the temporal features and the success flag. An
  attribute of a null date is null, so the integer columns are options as well.
\<close>

record mission = launch +
  year :: "int option"
  month :: "nat option"
  month_name :: "string option"
  decade :: "int option"
  day_of_week :: "string option"
  success :: bool

subsection \<open>String helpers of lines 55 and 58\<close>

text \<open>\<^verbatim>\<open>s.split(sep)\<close> for a one-character separator: never empty, and the empty
  string splits into one empty piece.\<close>

fun split_on :: "char \<Rightarrow> string \<Rightarrow> string list" where
  "split_on sep [] = [[]]"
| "split_on sep (c # cs) =
     (if c = sep then [] # split_on sep cs
      else (case split_on sep cs of
              [] \<Rightarrow> [[c]]
            | w # ws \<Rightarrow> (c # w) # ws))"

text \<open>
  The characters \<^verbatim>\<open>str.strip()\<close> removes. A \<open>char\<close> stands for a code point below
  256; among these Python's whitespace is 9 to 13, 28 to 32, 133 (next line) and 160
  (no-break space). Text with code points from 256 on is outside the model.
\<close>

definition isspace :: "char \<Rightarrow> bool" where
  "isspace c =
     (let n = (of_char c :: nat)
      in (9 \<le> n \<and> n \<le> 13) \<or> (28 \<le> n \<and> n \<le> 32) \<or> n = 133 \<or> n = 160)"

definition strip :: "string \<Rightarrow> string" where
  "strip s = rev (dropWhile isspace (rev (dropWhile isspace s)))"

text \<open>\<^verbatim>\<open>.str.split(",").str[-1].str.strip()\<close>: a null cell stays null.\<close>

definition last_token :: "char \<Rightarrow> cell \<Rightarrow> cell" where
  "last_token sep c = map_option (\<lambda>s. strip (last (split_on sep s))) c"

text \<open>\<^verbatim>\<open>.str.split("|").str[0].str.strip()\<close>.\<close>

definition first_token :: "char \<Rightarrow> cell \<Rightarrow> cell" where
  "first_token sep c = map_option (\<lambda>s. strip (hd (split_on sep s))) c"

subsection \<open>Lines 52--72: renaming, derived text columns, date conversion\<close>

text \<open>
  \<^verbatim>\<open>pd.to_datetime\<close> is pandas' parser, not code of the script, so it is a parameter
  \<open>parse\<close>. With \<^verbatim>\<open>errors="coerce"\<close> a text that does not parse becomes the null
  date instead of raising, and a null cell stays null. Whether a text parses may depend
  on the other cells of the column (pandas infers one format for the column), so the
  parser is given the column as well as the cell.
\<close>

type_synonym date_parser = "cell list \<Rightarrow> string \<Rightarrow> timestamp option"

definition to_datetime :: "date_parser \<Rightarrow> cell list \<Rightarrow> cell \<Rightarrow> timestamp option" where
  "to_datetime parse col c = (case c of None \<Rightarrow> None | Some s \<Rightarrow> parse col s)"

definition process_row :: "date_parser \<Rightarrow> cell list \<Rightarrow> csv_row \<Rightarrow> launch" where
  "process_row parse col r =
     \<lparr> agency = Organisation r,
       location_name = Location r,
       date = to_datetime parse col (Date r),
       rocket = Detail r,
       rocket_status = Rocket_Status r,
       price = Price r,
       status = Mission_Status r,
       country_full = last_token (CHR '','') (Location r),
       rocket_family = first_token (CHR ''|'') (Detail r) \<rparr>"

text \<open>
  The table of lines 52--72. The \<^verbatim>\<open>.str\<close> accessor of lines 55 and 58 raises
  \<^verbatim>\<open>AttributeError\<close> on a column that pandas did not read as text (a column with
  rows of which none holds text); \<open>process\<close> is the table built when it does not
  raise. The exception is one of those that \<open>analysis_exn\<close> of the control-flow
  model stands for: it is raised in step 2, outside every \<^verbatim>\<open>try\<close> block.
\<close>

definition process :: "date_parser \<Rightarrow> csv_row list \<Rightarrow> launch list" where
  "process parse rows = map (process_row parse (map Date rows)) rows"

subsection \<open>Line 75: rows with a null date are removed\<close>

definition dropna_date :: "launch list \<Rightarrow> launch list" where
  "dropna_date df = filter (\<lambda>r. date r \<noteq> None) df"

subsection \<open>Lines 78--86: temporal features and the success flag\<close>

definition success_keywords :: "string list" where
  "success_keywords = [''Success'', ''Partial Failure'']"

text \<open>\<^verbatim>\<open>Series.isin(values)\<close>: a null cell is in no list of texts.\<close>

definition isin :: "cell \<Rightarrow> string list \<Rightarrow> bool" where
  "isin c vs = (case c of None \<Rightarrow> False | Some s \<Rightarrow> s \<in> set vs)"

text \<open>\<^verbatim>\<open>(year // 10) * 10\<close>; Python's \<^verbatim>\<open>//\<close> rounds down, as \<open>div\<close> on \<open>int\<close>.\<close>

definition decade_of :: "int \<Rightarrow> int" where
  "decade_of y = (y div 10) * 10"

definition add_features :: "launch \<Rightarrow> mission" where
  "add_features r =
     (let y = map_option ts_year (date r)
      in launch.extend r
           \<lparr> year = y,
             month = map_option ts_month (date r),
             month_name = map_option ts_month_name (date r),
             decade = map_option decade_of y,
             day_of_week = map_option ts_day_name (date r),
             success = isin (status r) success_keywords \<rparr>)"

subsection \<open>Lines 89--99: country names\<close>

definition country_mapping :: "(string \<times> string) list" where
  "country_mapping =
     [(''USA'', ''United States''),
      (''China'', ''China''),
      (''Russia'', ''Russia''),
      (''Kazakhstan'', ''Kazakhstan''),
      (''French Guiana'', ''France''),
      (''India'', ''India''),
      (''Japan'', ''Japan''),
      (''New Zealand'', ''New Zealand'')]"

text \<open>\<^verbatim>\<open>Series.map(dict)\<close>: a key that is absent, and a null cell, map to null.\<close>

definition series_map :: "(string \<times> string) list \<Rightarrow> cell \<Rightarrow> cell" where
  "series_map d c = (case c of None \<Rightarrow> None | Some s \<Rightarrow> map_of d s)"

text \<open>\<^verbatim>\<open>a.fillna(b)\<close>, at one row: a null of \<open>a\<close> is replaced by the cell of \<open>b\<close>.\<close>

definition fillna :: "cell \<Rightarrow> cell \<Rightarrow> cell" where
  "fillna a b = (case a of None \<Rightarrow> b | Some v \<Rightarrow> Some v)"

definition canonical_country :: "cell \<Rightarrow> cell" where
  "canonical_country c = fillna (series_map country_mapping c) c"

definition map_countries :: "mission list \<Rightarrow> mission list" where
  "map_countries df = map (\<lambda>r. r\<lparr>country_full := canonical_country (country_full r)\<rparr>) df"

subsection \<open>The cleaned table\<close>

text \<open>The table \<^verbatim>\<open>df\<close> as it stands after line 99; no later line assigns to it.\<close>

definition clean :: "date_parser \<Rightarrow> csv_row list \<Rightarrow> mission list" where
  "clean parse rows = map_countries (map add_features (dropna_date (process parse rows)))"

section \<open>Aggregates\<close>

subsection \<open>Lines 118--122 and 277: mission counts\<close>

text \<open>The values of a column that are not null, in row order.\<close>

definition notna :: "'a option list \<Rightarrow> 'a list" where
  "notna col = List.map_filter (\<lambda>c. c) col"

text \<open>The distinct values of a list, each at its first occurrence.\<close>

definition uniques :: "'a list \<Rightarrow> 'a list" where
  "uniques vs = rev (remdups (rev vs))"

text \<open>
  \<^verbatim>\<open>Series.value_counts()\<close>: one entry per distinct value that is not null (nulls are
  left out by default), with the number of rows holding it, the largest count first.
  The order among equal counts is taken as first occurrence.
\<close>

definition value_counts :: "'a option list \<Rightarrow> ('a \<times> nat) list" where
  "value_counts col =
     (let vs = notna col
      in sort_key (\<lambda>(v, n). - int n) (map (\<lambda>v. (v, count_list vs v)) (uniques vs)))"

definition country_missions :: "mission list \<Rightarrow> (string \<times> nat) list" where
  "country_missions df = take 15 (value_counts (map country_full df))"

definition org_missions :: "mission list \<Rightarrow> (string \<times> nat) list" where
  "org_missions df = take 15 (value_counts (map agency df))"

definition total_missions :: "mission list \<Rightarrow> nat" where
  "total_missions df = length df"

subsection \<open>Lines 301--304 and 345--346: success rates by group\<close>

text \<open>
  One row of \<^verbatim>\<open>df.groupby(key)["success"].agg(["sum", "count"])\<close> with the rate column
  the script adds. Rates are Python floats; they are modelled as exact reals.
\<close>

record group_stats =
  g_key :: int
  g_sum :: nat
  g_count :: nat
  g_rate :: real

text \<open>The group keys: the distinct values that are not null, ascending.\<close>

definition group_keys :: "int option list \<Rightarrow> int list" where
  "group_keys col = sort (remdups (notna col))"

definition success_by :: "(mission \<Rightarrow> int option) \<Rightarrow> mission list \<Rightarrow> group_stats list" where
  "success_by col df =
     map (\<lambda>k. let g = filter (\<lambda>r. col r = Some k) df;
                  s = length (filter success g);
                  n = length g
              in \<lparr> g_key = k, g_sum = s, g_count = n, g_rate = (real s / real n) * 100 \<rparr>)
       (group_keys (map col df))"

definition success_by_decade :: "mission list \<Rightarrow> group_stats list" where
  "success_by_decade df = success_by decade df"

definition success_by_year :: "mission list \<Rightarrow> group_stats list" where
  "success_by_year df = success_by year df"

subsection \<open>Line 347: the rolling mean\<close>

text \<open>
  \<^verbatim>\<open>Series.rolling(window, center).mean()\<close> on a series without nulls. The window of
  position \<open>i\<close> is the half-open range from \<open>i + 1 + offset - window\<close> to
  \<open>i + 1 + offset\<close>, both ends clipped to the series (the subtraction on \<open>nat\<close>
  clips at 0), where \<open>offset = (window - 1) div 2\<close> for a centered window and 0
  otherwise. The result is null when the window holds fewer than \<open>min_periods\<close>
  values, and \<open>min_periods\<close> is the window's width when it is not given.
\<close>

definition rolling_mean :: "nat \<Rightarrow> bool \<Rightarrow> real list \<Rightarrow> real option list" where
  "rolling_mean window center xs =
     (let n = length xs;
          offset = (if center then (window - 1) div 2 else 0);
          min_periods = window
      in map (\<lambda>i. let stop = min (i + 1 + offset) n;
                       start = min (i + 1 + offset - window) n;
                       vals = take (stop - start) (drop start xs)
                   in if length vals < min_periods then None
                      else Some (sum_list vals / real (length vals)))
           [0..<n])"

definition rolling_success :: "mission list \<Rightarrow> real option list" where
  "rolling_success df = rolling_mean 5 True (map g_rate (success_by_year df))"

subsection \<open>Lines 450--459: the trend label of the summary\<close>

text \<open>\<^verbatim>\<open>Series.max()\<close> and \<^verbatim>\<open>Series.min()\<close> skip nulls and are null on a series
  with no value.\<close>

definition series_max :: "int option list \<Rightarrow> int option" where
  "series_max col = (case notna col of [] \<Rightarrow> None | v # vs \<Rightarrow> Some (fold max vs v))"

definition series_min :: "int option list \<Rightarrow> int option" where
  "series_min col = (case notna col of [] \<Rightarrow> None | v # vs \<Rightarrow> Some (fold min vs v))"

text \<open>\<^verbatim>\<open>==\<close> on a column: a comparison with a null is false.\<close>

definition eq_cell :: "int option \<Rightarrow> int option \<Rightarrow> bool" where
  "eq_cell a b = (case a of None \<Rightarrow> False | Some x \<Rightarrow> (case b of None \<Rightarrow> False | Some y \<Rightarrow> x = y))"

definition recent_decade :: "mission list \<Rightarrow> mission list" where
  "recent_decade df = filter (\<lambda>r. eq_cell (decade r) (series_max (map decade df))) df"

definition old_decade :: "mission list \<Rightarrow> mission list" where
  "old_decade df = filter (\<lambda>r. eq_cell (decade r) (series_min (map decade df))) df"

text \<open>\<^verbatim>\<open>sub["success"].mean()\<close> of a table with at least one row.\<close>

definition success_mean :: "mission list \<Rightarrow> real" where
  "success_mean sub = real (length (filter success sub)) / real (length sub)"

definition recent_success :: "mission list \<Rightarrow> real" where
  "recent_success df =
     (if length (recent_decade df) > 0 then success_mean (recent_decade df) * 100 else 0)"

definition old_success :: "mission list \<Rightarrow> real" where
  "old_success df =
     (if length (old_decade df) > 0 then success_mean (old_decade df) * 100 else 0)"

definition trend_text :: "mission list \<Rightarrow> string" where
  "trend_text df = (if recent_success df > old_success df then ''IMPROVED'' else ''DECLINED'')"

section \<open>Control flow: loading and exporting\<close>

text \<open>
  The script's effects are modelled as a trace of events. The events are the calls that
  touch the file system and the \<^verbatim>\<open>print\<close> calls of the loading and export stages, one
  event per call. The prints and plots of the analysis steps (lines 37--521) are not
  events of the model.
\<close>

text \<open>An exception a library call raises: an instance of \<^verbatim>\<open>Exception\<close>, of one of
  the two classes the script names in a handler or of any other class, with its
  message \<^verbatim>\<open>str(e)\<close>.\<close>

datatype exn = FileNotFoundError string | ImportError string | OtherError string

fun message_of :: "exn \<Rightarrow> string" where
  "message_of (FileNotFoundError m) = m"
| "message_of (ImportError m) = m"
| "message_of (OtherError m) = m"

text \<open>What ends a block early: an exception, or the \<^verbatim>\<open>SystemExit\<close> of
  \<^verbatim>\<open>exit()\<close>, which is no \<^verbatim>\<open>Exception\<close> and which no handler of the script catches.\<close>

datatype signal = Raised exn | SystemExit

text \<open>The seven files that lines 539--619 write with \<^verbatim>\<open>to_csv\<close> and \<^verbatim>\<open>open\<close>, in
  the order they are written.\<close>

datatype artifact =
  ProcessedCsv | CountryCsv | OrgCsv | YearlyCsv | RocketCsv | SummaryTxt | DecadeCsv

fun path_of :: "artifact \<Rightarrow> string" where
  "path_of ProcessedCsv = ''exports/processed_mission_data.csv''"
| "path_of CountryCsv = ''exports/country_statistics.csv''"
| "path_of OrgCsv = ''exports/organization_statistics.csv''"
| "path_of YearlyCsv = ''exports/yearly_trends.csv''"
| "path_of RocketCsv = ''exports/rocket_statistics.csv''"
| "path_of SummaryTxt = ''exports/analysis_summary.txt''"
| "path_of DecadeCsv = ''exports/decade_analysis.csv''"

text \<open>The workbook of lines 622--631 and its six sheets (\<^verbatim>\<open>Processed Data\<close>,
  \<^verbatim>\<open>Countries\<close>, \<^verbatim>\<open>Organizations\<close>, \<^verbatim>\<open>Yearly Trends\<close>, \<^verbatim>\<open>Rockets\<close>,
  \<^verbatim>\<open>Decades\<close>), in the order of the \<^verbatim>\<open>to_excel\<close> calls.\<close>

definition excel_file :: string where
  "excel_file = ''exports/space_race_complete_analysis.xlsx''"

datatype sheet = ProcessedData | Countries | Organizations | YearlyTrends | Rockets | Decades

text \<open>
  The messages printed, one constructor per \<^verbatim>\<open>print\<close> call: the rule of 70 equal
  signs, with or without a newline before it; lines 10, 11 and 18; lines 23 and 24; lines 26 and 27; line 30 with the
  exception's message; line 528; line 537; the line that reports an exported file;
  line 633; line 636; line 640 with the exception's message; line 642.
\<close>

datatype message =
  Rule | Title | LoadingData | LoadingFile
  | Loaded nat | OriginalColumns
  | CsvNotFound | CsvHint
  | CsvError string
  | Exporting
  | CreatedExports
  | Exported string
  | ExcelSkipped
  | AllSaved
  | ExportError string
  | Farewell

text \<open>
  The events: a message printed; the file read; the directory made; a file that a
  call has written in full (\<open>WriteFile\<close>: a call that raises may leave a part of its
  file, which is no event); the workbook file opened for writing, which creates it empty
  (\<open>OpenFile\<close>).
\<close>

datatype event =
  Print message | ReadCsv string | MakeDirs string | WriteFile string | OpenFile string

text \<open>
  The world the script runs in: what \<^verbatim>\<open>pd.read_csv\<close> returns or raises; the date
  parser; the exception, if any, that a library call of steps 2 to 10 raises on the
  cleaned table (these steps stand in no \<^verbatim>\<open>try\<close> block); whether the directory
  \<^verbatim>\<open>exports\<close> exists; and the exception, if any, that is raised by creating the
  directory, by writing each of the seven files, by creating the workbook writer
  (\<^verbatim>\<open>ImportError\<close> when the library \<^verbatim>\<open>openpyxl\<close> is missing, raised before the
  file is opened), by each \<^verbatim>\<open>to_excel\<close> call, and by saving the workbook when the
  \<^verbatim>\<open>with\<close> block is left (saving fails, for one, on a workbook that holds no sheet
  yet).
\<close>

record world =
  read_csv :: "exn + csv_row list"
  parser :: date_parser
  analysis_exn :: "mission list \<Rightarrow> exn option"
  exports_exists :: bool
  makedirs_exn :: "exn option"
  export_exn :: "artifact \<Rightarrow> exn option"
  excel_writer_exn :: "exn option"
  to_excel_exn :: "sheet \<Rightarrow> exn option"
  excel_save_exn :: "exn option"

text \<open>A block of statements: its trace, and either the signal that ended it or its
  value.\<close>

type_synonym 'a run = "event list \<times> (signal + 'a)"

definition returns :: "'a \<Rightarrow> 'a run" where
  "returns v = ([], Inr v)"

definition raise :: "exn \<Rightarrow> 'a run" where
  "raise x = ([], Inl (Raised x))"

definition sys_exit :: "'a run" where
  "sys_exit = ([], Inl SystemExit)"

definition emit :: "event \<Rightarrow> unit run" where
  "emit ev = ([ev], Inr ())"

text \<open>Sequencing: the second block runs only when the first ends normally.\<close>

definition and_then :: "'a run \<Rightarrow> ('a \<Rightarrow> 'b run) \<Rightarrow> 'b run" where
  "and_then m f =
     (case m of
        (evs, Inl s) \<Rightarrow> (evs, Inl s)
      | (evs, Inr v) \<Rightarrow> (case f v of (evs', r) \<Rightarrow> (evs @ evs', r)))"

fun block :: "unit run list \<Rightarrow> unit run" where
  "block [] = returns ()"
| "block (m # ms) = and_then m (\<lambda>_. block ms)"

text \<open>
  \<^verbatim>\<open>try: body except ...\<close>: the handler function gives the block of the first
  \<^verbatim>\<open>except\<close> clause that matches the exception, or \<open>None\<close> when no clause matches.
  \<^verbatim>\<open>SystemExit\<close> passes through.
\<close>

definition try_except :: "'a run \<Rightarrow> (exn \<Rightarrow> 'a run option) \<Rightarrow> 'a run" where
  "try_except body handler =
     (case body of
        (evs, Inl (Raised x)) \<Rightarrow>
          (case handler x of
             None \<Rightarrow> (evs, Inl (Raised x))
           | Some h \<Rightarrow> (case h of (evs', r) \<Rightarrow> (evs @ evs', r)))
      | (evs, r) \<Rightarrow> (evs, r))"

text \<open>A library call that raises or returns.\<close>

definition call :: "event list \<Rightarrow> exn option \<Rightarrow> unit run" where
  "call evs x = (case x of None \<Rightarrow> (evs, Inr ()) | Some e \<Rightarrow> raise e)"

text \<open>
  \<^verbatim>\<open>with enter as v: body\<close>, for a context manager whose \<^verbatim>\<open>__exit__\<close> returns
  nothing: when \<open>enter\<close> ends normally the body runs and then \<open>leave\<close> runs, also
  when the body ended in a signal. That signal goes on after \<open>leave\<close>, unless
  \<open>leave\<close> ends in a signal of its own, which then replaces it.
\<close>

definition with_block :: "unit run \<Rightarrow> unit run \<Rightarrow> unit run \<Rightarrow> unit run" where
  "with_block enter body leave =
     and_then enter (\<lambda>_.
       case body of
         (evs, Inr v) \<Rightarrow> and_then (evs, Inr v) (\<lambda>_. leave)
       | (evs, Inl s) \<Rightarrow>
           (case leave of
              (evs', Inr v) \<Rightarrow> (evs @ evs', Inl s)
            | (evs', Inl s') \<Rightarrow> (evs @ evs', Inl s')))"

subsection \<open>Lines 9--31: loading\<close>

definition csv_name :: string where
  "csv_name = ''mission_launches.csv''"

definition pd_read_csv :: "world \<Rightarrow> csv_row list run" where
  "pd_read_csv w =
     (case read_csv w of
        Inl x \<Rightarrow> ([ReadCsv csv_name], Inl (Raised x))
      | Inr rows \<Rightarrow> ([ReadCsv csv_name], Inr rows))"

definition load :: "world \<Rightarrow> csv_row list run" where
  "load w =
     try_except
       (and_then (pd_read_csv w) (\<lambda>rows.
          and_then (block [emit (Print (Loaded (length rows))), emit (Print OriginalColumns)])
            (\<lambda>_. returns rows)))
       (\<lambda>x. case x of
               FileNotFoundError _ \<Rightarrow>
                 Some (and_then (block [emit (Print CsvNotFound), emit (Print CsvHint)])
                         (\<lambda>_. sys_exit))
             | _ \<Rightarrow>
                 Some (and_then (emit (Print (CsvError (message_of x)))) (\<lambda>_. sys_exit)))"

subsection \<open>Lines 527--640: exporting\<close>

definition export_file :: "world \<Rightarrow> artifact \<Rightarrow> unit run" where
  "export_file w a =
     call [WriteFile (path_of a), Print (Exported (path_of a))] (export_exn w a)"

text \<open>
  Lines 624--630: the \<^verbatim>\<open>with pd.ExcelWriter(...)\<close> block. Creating the writer opens
  the file; the six \<^verbatim>\<open>to_excel\<close> calls fill the workbook in memory; leaving the
  block saves the workbook to the file, also when a \<^verbatim>\<open>to_excel\<close> call raised.
\<close>

definition to_excel :: "world \<Rightarrow> sheet \<Rightarrow> unit run" where
  "to_excel w sh = call [] (to_excel_exn w sh)"

definition excel_workbook :: "world \<Rightarrow> unit run" where
  "excel_workbook w =
     with_block
       (call [OpenFile excel_file] (excel_writer_exn w))
       (block [to_excel w ProcessedData, to_excel w Countries, to_excel w Organizations,
               to_excel w YearlyTrends, to_excel w Rockets, to_excel w Decades])
       (call [WriteFile excel_file] (excel_save_exn w))"

definition export_results :: "world \<Rightarrow> unit run" where
  "export_results w =
     try_except
       (block
          [ if exports_exists w then returns ()
            else call [MakeDirs ''exports'', Print CreatedExports] (makedirs_exn w),
            export_file w ProcessedCsv,
            export_file w CountryCsv,
            export_file w OrgCsv,
            export_file w YearlyCsv,
            export_file w RocketCsv,
            export_file w SummaryTxt,
            export_file w DecadeCsv,
            try_except
              (and_then (excel_workbook w) (\<lambda>_. emit (Print (Exported excel_file))))
              (\<lambda>x. case x of ImportError _ \<Rightarrow> Some (emit (Print ExcelSkipped)) | _ \<Rightarrow> None),
            emit (Print Rule), emit (Print AllSaved), emit (Print Rule) ])
       (\<lambda>x. Some (emit (Print (ExportError (message_of x)))))"

subsection \<open>The whole script\<close>

definition main :: "world \<Rightarrow> unit run" where
  "main w =
     and_then (block [emit (Print Rule), emit (Print Title), emit (Print LoadingData),
                      emit (Print Rule), emit (Print LoadingFile)]) (\<lambda>_.
     and_then (load w) (\<lambda>rows.
     and_then (call [] (analysis_exn w (clean (parser w) rows))) (\<lambda>_.
     and_then (block [emit (Print Rule), emit (Print Exporting), emit (Print Rule)]) (\<lambda>_.
     and_then (export_results w) (\<lambda>_.
     emit (Print Farewell))))))"

text \<open>The files a trace writes or opens for writing and the directories it creates,
  in order.\<close>

definition outputs :: "event list \<Rightarrow> string list" where
  "outputs evs =
     concat (map (\<lambda>ev. case ev of
                         WriteFile p \<Rightarrow> [p]
                       | OpenFile p \<Rightarrow> [p]
                       | MakeDirs p \<Rightarrow> [p]
                       | _ \<Rightarrow> []) evs)"

definition reads :: "event list \<Rightarrow> string list" where
  "reads evs = concat (map (\<lambda>ev. case ev of ReadCsv p \<Rightarrow> [p] | _ \<Rightarrow> []) evs)"

text \<open>The seven files and the six sheets in the order of the script, and the events
  of one file written, of the directory made and of the seven files written.\<close>

definition artifacts :: "artifact list" where
  "artifacts =
     [ProcessedCsv, CountryCsv, OrgCsv, YearlyCsv, RocketCsv, SummaryTxt, DecadeCsv]"


definition exported :: "artifact \<Rightarrow> event list" where
  "exported a = [WriteFile (path_of a), Print (Exported (path_of a))]"

definition dir_events :: "world \<Rightarrow> event list" where
  "dir_events w = (if exports_exists w then [] else [MakeDirs ''exports'', Print CreatedExports])"

definition files_events :: "world \<Rightarrow> event list" where
  "files_events w = dir_events w @ concat (map exported artifacts)"

text \<open>A block that does not end in \<^verbatim>\<open>SystemExit\<close>.\<close>

definition no_exit :: "'a run \<Rightarrow> bool" where
  "no_exit m = (snd m \<noteq> Inl SystemExit)"

section \<open>Example inputs\<close>

text \<open>A date parser that knows two dates, and three rows of the file: one launch from
  the United States, one row whose date does not parse, one row without a location.\<close>

definition example_parse :: date_parser where
  "example_parse col s =
     (if s = ''Fri Aug 07, 2020 05:12 UTC'' then
        Some \<lparr> ts_year = 2020, ts_month = 8, ts_month_name = ''August'',
               ts_day_name = ''Friday'' \<rparr>
      else if s = ''Fri Oct 04, 1957 19:28 UTC'' then
        Some \<lparr> ts_year = 1957, ts_month = 10, ts_month_name = ''October'',
               ts_day_name = ''Friday'' \<rparr>
      else None)"

definition example_rows :: "csv_row list" where
  "example_rows =
     [ \<lparr> Organisation = Some ''SpaceX'',
         Location = Some ''LC-39A, Kennedy Space Center, Florida, USA'',
         Date = Some ''Fri Aug 07, 2020 05:12 UTC'',
         Detail = Some ''Falcon 9 Block 5 | Starlink V1 L9 & BlackSky'',
         Rocket_Status = Some ''StatusActive'',
         Price = Some ''50.0'',
         Mission_Status = Some ''Success'' \<rparr>,
       \<lparr> Organisation = Some ''CASC'',
         Location = Some ''Site 9401 (SLS-2), Jiuquan Satellite Launch Center, China'',
         Date = Some ''date unknown'',
         Detail = Some ''Long March 2D | Gaofen-9 04 & Q-SAT'',
         Rocket_Status = Some ''StatusActive'',
         Price = Some ''29.75'',
         Mission_Status = Some ''Success'' \<rparr>,
       \<lparr> Organisation = Some ''RVSN USSR'',
         Location = None,
         Date = Some ''Fri Oct 04, 1957 19:28 UTC'',
         Detail = Some ''Sputnik 8K71PS | Sputnik-1'',
         Rocket_Status = Some ''StatusRetired'',
         Price = None,
         Mission_Status = Some ''Failure'' \<rparr> ]"

text \<open>A cleaned table given by the years and outcomes of its rows.\<close>

definition example_mission :: "int \<Rightarrow> bool \<Rightarrow> mission" where
  "example_mission y ok =
     \<lparr> agency = Some ''NASA'',
       location_name = Some ''LC-39A, Kennedy Space Center, Florida, USA'',
       date = Some \<lparr> ts_year = y, ts_month = 1, ts_month_name = ''January'',
                     ts_day_name = ''Monday'' \<rparr>,
       rocket = Some ''Saturn V | Apollo'',
       rocket_status = Some ''StatusRetired'',
       price = None,
       status = Some (if ok then ''Success'' else ''Failure''),
       country_full = Some ''United States'',
       rocket_family = Some ''Saturn V'',
       year = Some y,
       month = Some 1,
       month_name = Some ''January'',
       decade = Some (decade_of y),
       day_of_week = Some ''Monday'',
       success = ok \<rparr>"

definition example_table :: "mission list" where
  "example_table =
     [example_mission 2015 True, example_mission 2016 False, example_mission 2016 True,
      example_mission 2017 True, example_mission 2018 False, example_mission 2019 True,
      example_mission 2020 True]"

text \<open>A world in which the file loads, nothing raises and \<^verbatim>\<open>exports\<close> does not exist.\<close>

definition example_world :: world where
  "example_world =
     \<lparr> read_csv = Inr example_rows,
       parser = example_parse,
       analysis_exn = (\<lambda>df. None),
       exports_exists = False,
       makedirs_exn = None,
       export_exn = (\<lambda>a. None),
       excel_writer_exn = None,
       to_excel_exn = (\<lambda>sh. None),
       excel_save_exn = None \<rparr>"





text \<open>A cleaned table of three decades: the earliest and the latest have no success,
  the middle one has.\<close>

definition example_decades :: "mission list" where
  "example_decades =
     [example_mission 1965 False, example_mission 1975 True, example_mission 1985 False]"

section \<open>The cleaned table\<close>

lemma clean_eq:
  "clean parse rows =
     map (\<lambda>r. (add_features (process_row parse (map Date rows) r))
               \<lparr>country_full := canonical_country (last_token (CHR '','') (Location r))\<rparr>)
       (filter (\<lambda>r. to_datetime parse (map Date rows) (Date r) \<noteq> None) rows)"
  by (simp add: clean_def map_countries_def dropna_date_def process_def filter_map o_def
      add_features_def process_row_def launch.defs Let_def)

lemma example_clean:
  "clean example_parse example_rows =
     [ \<lparr> agency = Some ''SpaceX'',
         location_name = Some ''LC-39A, Kennedy Space Center, Florida, USA'',
         date = Some \<lparr> ts_year = 2020, ts_month = 8, ts_month_name = ''August'',
                       ts_day_name = ''Friday'' \<rparr>,
         rocket = Some ''Falcon 9 Block 5 | Starlink V1 L9 & BlackSky'',
         rocket_status = Some ''StatusActive'',
         price = Some ''50.0'',
         status = Some ''Success'',
         country_full = Some ''United States'',
         rocket_family = Some ''Falcon 9 Block 5'',
         year = Some 2020, month = Some 8, month_name = Some ''August'',
         decade = Some 2020, day_of_week = Some ''Friday'', success = True \<rparr>,
       \<lparr> agency = Some ''RVSN USSR'',
         location_name = None,
         date = Some \<lparr> ts_year = 1957, ts_month = 10, ts_month_name = ''October'',
                       ts_day_name = ''Friday'' \<rparr>,
         rocket = Some ''Sputnik 8K71PS | Sputnik-1'',
         rocket_status = Some ''StatusRetired'',
         price = None,
         status = Some ''Failure'',
         country_full = None,
         rocket_family = Some ''Sputnik 8K71PS'',
         year = Some 1957, month = Some 10, month_name = Some ''October'',
         decade = Some 1950, day_of_week = Some ''Friday'', success = False \<rparr> ]"
  by (simp add: clean_eq example_rows_def to_datetime_def example_parse_def add_features_def
      process_row_def Let_def launch.defs isin_def success_keywords_def decade_of_def
      canonical_country_def series_map_def fillna_def country_mapping_def last_token_def
      first_token_def strip_def isspace_def)

text \<open>The two examples of the specification for the string splits of lines 55 and 58.\<close>

lemma example_country_token:
  "last_token (CHR '','') (Some ''Pacific Missile Range Facility, Barking Sands, USA'')
     = Some ''USA''"
  "canonical_country (Some ''USA'') = Some ''United States''"
  by (simp_all add: last_token_def strip_def isspace_def canonical_country_def series_map_def
      fillna_def country_mapping_def)

lemma example_rocket_family:
  "first_token (CHR ''|'') (Some ''Falcon 9 Block 5 | Starlink'') = Some ''Falcon 9 Block 5''"
  by (simp add: first_token_def strip_def isspace_def)

text \<open>
  C1. Every row of the cleaned table has a date that parsed and is not null. The rows
  of the cleaned table are, in file order, exactly the rows of the file whose date
  parses, with the cells of the file unchanged: a row whose date does not parse is
  removed, not repaired, and no row is removed for any other reason.
\<close>

theorem retained_rows_have_dates:
  "(\<forall>r \<in> set (clean parse rows). date r \<noteq> None) \<and>
   map (\<lambda>m. (agency m, location_name m, date m, rocket m, rocket_status m, price m, status m))
       (clean parse rows)
   = map (\<lambda>r. (Organisation r, Location r, to_datetime parse (map Date rows) (Date r), Detail r,
               Rocket_Status r, Price r, Mission_Status r))
       (filter (\<lambda>r. to_datetime parse (map Date rows) (Date r) \<noteq> None) rows)"
  by (simp add: clean_eq add_features_def process_row_def launch.defs Let_def)

theorem retained_rows_have_dates_witness:
  "length (clean example_parse example_rows) = 2 \<and>
   date (clean example_parse example_rows ! 0) \<noteq> None \<and>
   date (clean example_parse example_rows ! 1) \<noteq> None \<and>
   map agency (clean example_parse example_rows) = [Some ''SpaceX'', Some ''RVSN USSR'']"
proof -
  have "\<forall>r \<in> set (clean example_parse example_rows). date r \<noteq> None"
    using retained_rows_have_dates [of example_parse example_rows] by blast
  moreover have "length (clean example_parse example_rows) = 2"
    by (simp add: example_clean)
  ultimately have "date (clean example_parse example_rows ! 0) \<noteq> None"
    and "date (clean example_parse example_rows ! 1) \<noteq> None"
    by simp_all
  then show ?thesis
    by (simp add: example_clean)
qed

text \<open>
  C2. In every row of the cleaned table the flag \<open>success\<close> is true exactly when
  the status text is \<^verbatim>\<open>Success\<close> or \<^verbatim>\<open>Partial Failure\<close>, where the status is the
  \<^verbatim>\<open>Mission_Status\<close> cell of the row of the file; for any other status, and for a
  missing one, it is false.
\<close>

theorem success_iff_status:
  "(\<forall>r \<in> set (clean parse rows).
      success r \<longleftrightarrow> (status r = Some ''Success'' \<or> status r = Some ''Partial Failure'')) \<and>
   map success (clean parse rows)
   = map (\<lambda>r. Mission_Status r = Some ''Success'' \<or> Mission_Status r = Some ''Partial Failure'')
       (filter (\<lambda>r. to_datetime parse (map Date rows) (Date r) \<noteq> None) rows)"
  by (auto simp add: clean_eq add_features_def process_row_def launch.defs Let_def isin_def
      success_keywords_def split: option.splits)

theorem success_iff_status_witness:
  "success (clean example_parse example_rows ! 0) \<and>
   status (clean example_parse example_rows ! 0) = Some ''Success'' \<and>
   \<not> success (clean example_parse example_rows ! 1) \<and>
   status (clean example_parse example_rows ! 1) = Some ''Failure''"
proof -
  have "\<forall>r \<in> set (clean example_parse example_rows).
          success r \<longleftrightarrow> (status r = Some ''Success'' \<or> status r = Some ''Partial Failure'')"
    using success_iff_status [of example_parse example_rows] by blast
  moreover have "clean example_parse example_rows ! 0 \<in> set (clean example_parse example_rows)"
    and "clean example_parse example_rows ! 1 \<in> set (clean example_parse example_rows)"
    by (simp_all add: example_clean)
  ultimately have
    "success (clean example_parse example_rows ! 0) \<longleftrightarrow>
       (status (clean example_parse example_rows ! 0) = Some ''Success'' \<or>
        status (clean example_parse example_rows ! 0) = Some ''Partial Failure'')"
    and
    "success (clean example_parse example_rows ! 1) \<longleftrightarrow>
       (status (clean example_parse example_rows ! 1) = Some ''Success'' \<or>
        status (clean example_parse example_rows ! 1) = Some ''Partial Failure'')"
    by blast+
  then show ?thesis
    by (simp add: example_clean)
qed

text \<open>
  C3. In every row of the cleaned table the year is not null and the decade is
  \<open>(year div 10) * 10\<close>: the largest multiple of ten that is not above the year.
\<close>

theorem decade_of_year:
  "\<forall>r \<in> set (clean parse rows).
     \<exists>y. year r = Some y \<and> decade r = Some ((y div 10) * 10) \<and>
         (y div 10) * 10 \<le> y \<and> y < (y div 10) * 10 + 10 \<and> 10 dvd (y div 10) * 10"
  by (auto simp add: clean_eq add_features_def process_row_def launch.defs Let_def decade_of_def)

theorem decade_of_year_witness:
  "year (clean example_parse example_rows ! 1) = Some 1957 \<and>
   decade (clean example_parse example_rows ! 1) = Some 1950"
proof -
  have "clean example_parse example_rows ! 1 \<in> set (clean example_parse example_rows)"
    by (simp add: example_clean)
  with decade_of_year [of example_parse example_rows]
  obtain y where "year (clean example_parse example_rows ! 1) = Some y"
    and "decade (clean example_parse example_rows ! 1) = Some ((y div 10) * 10)"
    by blast
  then show ?thesis
    by (simp add: example_clean)
qed

section \<open>Country names\<close>

lemma canonical_country_twice: "canonical_country (canonical_country c) = canonical_country c"
proof (cases c)
  case None
  then show ?thesis
    by (simp add: canonical_country_def fillna_def series_map_def)
next
  case (Some s)
  then show ?thesis
    by (auto simp add: canonical_country_def fillna_def series_map_def country_mapping_def
        split: option.splits if_splits)
qed

text \<open>
  C4. The country lookup with its fallback is idempotent, on every cell and so on the
  whole column, and a text that is no key of \<open>country_mapping\<close> is returned as it is.
\<close>

theorem canonical_country_idempotent:
  "canonical_country (canonical_country c) = canonical_country c \<and>
   (\<forall>s. map_of country_mapping s = None \<longrightarrow> canonical_country (Some s) = Some s) \<and>
   map_countries (map_countries df) = map_countries df"
  by (simp add: canonical_country_twice map_countries_def o_def)
     (simp add: canonical_country_def fillna_def series_map_def)

theorem canonical_country_idempotent_witness:
  "canonical_country (Some ''USA'') = Some ''United States'' \<and>
   canonical_country (canonical_country (Some ''USA'')) = Some ''United States'' \<and>
   map_of country_mapping ''Brazil'' = None \<and>
   canonical_country (Some ''Brazil'') = Some ''Brazil''"
proof -
  have k: "map_of country_mapping ''Brazil'' = None"
    by (simp add: country_mapping_def)
  have u: "canonical_country (Some ''USA'') = Some ''United States''"
    by (simp add: canonical_country_def fillna_def series_map_def country_mapping_def)
  from canonical_country_idempotent [of "Some ''USA''" "[]"]
  have "canonical_country (canonical_country (Some ''USA'')) = canonical_country (Some ''USA'')"
    and "map_of country_mapping ''Brazil'' = None \<longrightarrow>
         canonical_country (Some ''Brazil'') = Some ''Brazil''"
    by blast+
  with k u show ?thesis
    by simp
qed

section \<open>Mission counts\<close>

lemma length_notna: "length (notna col) = length (filter (\<lambda>c. c \<noteq> None) col)"
  by (induction col) (auto simp add: notna_def List.map_filter_simps split: option.splits)

lemma sum_list_sort_key: "sum_list (map g (sort_key f xs)) = (sum_list (map g xs) :: nat)"
proof -
  have "mset (map g (sort_key f xs)) = mset (map g xs)"
    by simp
  then have "sum_mset (mset (map g (sort_key f xs))) = sum_mset (mset (map g xs))"
    by (rule arg_cong)
  then show ?thesis
    by (simp only: sum_mset_sum_list)
qed

lemma uniques_distinct: "distinct (uniques vs)" and uniques_set: "set (uniques vs) = set vs"
  by (simp_all add: uniques_def)

lemma sum_counts_uniques: "sum_list (map (count_list vs) (uniques vs)) = length vs"
proof -
  have "sum_list (map (count_list vs) (uniques vs)) = sum (count_list vs) (set vs)"
    using uniques_distinct [of vs] uniques_set [of vs]
    by (simp add: sum_list_distinct_conv_sum_set)
  also have "\<dots> = length vs"
    by (rule sum_count_set) simp_all
  finally show ?thesis .
qed

lemma value_counts_sum:
  "sum_list (map snd (value_counts col)) = length (filter (\<lambda>c. c \<noteq> None) col)"
  by (simp add: value_counts_def Let_def sum_list_sort_key o_def sum_counts_uniques length_notna)

lemma filter_all: "(\<forall>x \<in> set xs. P x) \<Longrightarrow> length (filter P xs) = length xs"
  by (induction xs) auto

text \<open>The tables the script keeps are the first 15 entries of the counts: all of them
  when the column has at most 15 distinct values.\<close>

lemma country_missions_all:
  "length (value_counts (map country_full df)) \<le> 15 \<Longrightarrow>
   country_missions df = value_counts (map country_full df)"
  "length (value_counts (map agency df)) \<le> 15 \<Longrightarrow>
   org_missions df = value_counts (map agency df)"
  by (simp_all add: country_missions_def org_missions_def)

text \<open>
  C5, as the claim states it, fails: \<^verbatim>\<open>value_counts()\<close> leaves null values out, so a
  retained row without a location is counted under no country. In the example the
  cleaned table has two rows and the country counts sum to one.
\<close>

theorem mission_counts_counterexample:
  "sum_list (map snd (value_counts (map country_full (clean example_parse example_rows))))
   \<noteq> total_missions (clean example_parse example_rows)"
  by (simp add: value_counts_sum total_missions_def example_clean)

text \<open>
  C5, amended. In every table the counts per country, summed over all distinct
  countries, give the number of rows whose country is not null, and the counts per
  agency give the number of rows whose agency is not null. Each sum is the total number
  of rows when no row has a null in that column.
\<close>

theorem mission_counts_total:
  "sum_list (map snd (value_counts (map country_full df)))
     = length (filter (\<lambda>r. country_full r \<noteq> None) df) \<and>
   sum_list (map snd (value_counts (map agency df)))
     = length (filter (\<lambda>r. agency r \<noteq> None) df) \<and>
   ((\<forall>r \<in> set df. country_full r \<noteq> None) \<longrightarrow>
      sum_list (map snd (value_counts (map country_full df))) = total_missions df) \<and>
   ((\<forall>r \<in> set df. agency r \<noteq> None) \<longrightarrow>
      sum_list (map snd (value_counts (map agency df))) = total_missions df)"
  by (simp add: value_counts_sum filter_map o_def total_missions_def filter_all)

theorem mission_counts_total_witness:
  "sum_list (map snd (value_counts (map country_full (clean example_parse example_rows)))) = 1 \<and>
   sum_list (map snd (value_counts (map agency (clean example_parse example_rows)))) = 2 \<and>
   total_missions (clean example_parse example_rows) = 2"
proof -
  have a: "\<forall>r \<in> set (clean example_parse example_rows). agency r \<noteq> None"
    by (simp add: example_clean)
  have t: "total_missions (clean example_parse example_rows) = 2"
    by (simp add: total_missions_def example_clean)
  from mission_counts_total [of "clean example_parse example_rows"] a
  have "sum_list (map snd (value_counts (map agency (clean example_parse example_rows))))
          = total_missions (clean example_parse example_rows)"
    and "sum_list (map snd (value_counts (map country_full (clean example_parse example_rows))))
          = length (filter (\<lambda>r. country_full r \<noteq> None) (clean example_parse example_rows))"
    by blast+
  with t show ?thesis
    by (simp add: example_clean)
qed

section \<open>The rolling success rate\<close>

lemma take5_drop:
  assumes "k + 5 \<le> length xs"
  shows "take 5 (drop k xs) = [xs ! k, xs ! (k + 1), xs ! (k + 2), xs ! (k + 3), xs ! (k + 4)]"
proof -
  have "length (take 5 (drop k xs)) = 5" using assms by simp
  moreover have "\<forall>j < 5. take 5 (drop k xs) ! j = xs ! (k + j)" using assms by simp
  ultimately show ?thesis
    by (intro nth_equalityI) (auto simp add: nth_Cons' numeral_eq_Suc less_Suc_eq)
qed

lemma rolling_mean_length: "length (rolling_mean w c xs) = length xs"
  by (simp add: rolling_mean_def Let_def)

lemma rolling_mean_inner:
  assumes "2 \<le> i" "i + 2 < length xs"
  shows "rolling_mean 5 True xs ! i
         = Some ((xs ! (i - 2) + xs ! (i - 1) + xs ! i + xs ! (i + 1) + xs ! (i + 2)) / 5)"
proof -
  obtain k where k: "i = k + 2" using assms(1) by (metis add.commute le_Suc_ex)
  have t: "take 5 (drop k xs) = [xs ! k, xs ! (k + 1), xs ! (k + 2), xs ! (k + 3), xs ! (k + 4)]"
    using assms(2) k by (intro take5_drop) simp
  have m1: "min (k + 3 + 2) (length xs) = k + 5" using assms(2) k by simp
  have m2: "min (k + 3 + 2 - 5) (length xs) = k" using assms(2) k by simp
  show ?thesis
    using assms(2) k
    by (simp add: rolling_mean_def Let_def m1 m2 t add.assoc) (simp add: numeral_eq_Suc)
qed

lemma rolling_mean_edge:
  assumes "i < length xs" "i < 2 \<or> length xs \<le> i + 2"
  shows "rolling_mean 5 True xs ! i = None"
  using assms by (auto simp add: rolling_mean_def Let_def min_def)

lemma example_keys: "group_keys (map year example_table) = [2015, 2016, 2017, 2018, 2019, 2020]"
  by (simp add: group_keys_def notna_def List.map_filter_simps example_table_def
      example_mission_def)

lemma example_mission_sel:
  "year (example_mission y ok) = Some y" "success (example_mission y ok) = ok"
  "decade (example_mission y ok) = Some (decade_of y)"
  by (simp_all add: example_mission_def)

lemma example_rates:
  "map g_rate (success_by_year example_table) = [100, 50, 100, 0, 100, 100]"
  by (simp add: success_by_year_def success_by_def example_keys Let_def)
     (simp add: example_table_def example_mission_sel)

text \<open>
  C6. The rolling trend has one entry per year of the yearly rate series. At a
  position with two entries before it and two after it, the entry is the mean of the
  five rates of the window centred there; at the first two and the last two positions
  the entry is null.
\<close>

theorem rolling_success_window:
  "length (rolling_success df) = length (success_by_year df) \<and>
   (\<forall>i < length (success_by_year df).
      (2 \<le> i \<and> i + 2 < length (success_by_year df) \<longrightarrow>
         rolling_success df ! i
         = Some ((g_rate (success_by_year df ! (i - 2)) + g_rate (success_by_year df ! (i - 1))
                  + g_rate (success_by_year df ! i) + g_rate (success_by_year df ! (i + 1))
                  + g_rate (success_by_year df ! (i + 2))) / 5)) \<and>
      (i < 2 \<or> length (success_by_year df) \<le> i + 2 \<longrightarrow> rolling_success df ! i = None))"
  by (simp add: rolling_success_def rolling_mean_length rolling_mean_inner rolling_mean_edge)

theorem rolling_success_window_witness:
  "map g_rate (success_by_year example_table) = [100, 50, 100, 0, 100, 100] \<and>
   length (rolling_success example_table) = 6 \<and>
   rolling_success example_table ! 0 = None \<and>
   rolling_success example_table ! 2 = Some 70 \<and>
   rolling_success example_table ! 3 = Some 70 \<and>
   rolling_success example_table ! 4 = None"
proof -
  have n: "length (success_by_year example_table) = 6"
    using arg_cong [OF example_rates, of length] by simp
  have r: "g_rate (success_by_year example_table ! 0) = 100"
    "g_rate (success_by_year example_table ! 1) = 50"
    "g_rate (success_by_year example_table ! 2) = 100"
    "g_rate (success_by_year example_table ! 3) = 0"
    "g_rate (success_by_year example_table ! 4) = 100"
    "g_rate (success_by_year example_table ! 5) = 100"
    using arg_cong [OF example_rates, of "\<lambda>xs. xs ! 0"]
      arg_cong [OF example_rates, of "\<lambda>xs. xs ! 1"]
      arg_cong [OF example_rates, of "\<lambda>xs. xs ! 2"]
      arg_cong [OF example_rates, of "\<lambda>xs. xs ! 3"]
      arg_cong [OF example_rates, of "\<lambda>xs. xs ! 4"]
      arg_cong [OF example_rates, of "\<lambda>xs. xs ! 5"]
    by (simp_all add: n)
  from r(2) have r1: "g_rate (success_by_year example_table ! Suc 0) = 50"
    by simp
  note w = rolling_success_window [of example_table, unfolded n]
  from w have l: "length (rolling_success example_table) = 6" by blast
  from w have a0: "rolling_success example_table ! 0 = None"
    by (elim conjE allE [of _ 0]) simp
  from w have a4: "rolling_success example_table ! 4 = None"
    by (elim conjE allE [of _ 4]) simp
  from w have a2: "rolling_success example_table ! 2 = Some 70"
    by (elim conjE allE [of _ 2]) (simp add: r r1)
  from w have a3: "rolling_success example_table ! 3 = Some 70"
    by (elim conjE allE [of _ 3]) (simp add: r r1)
  from l a0 a2 a3 a4 show ?thesis
    by (simp add: example_rates)
qed

section \<open>The trend label\<close>

lemma set_notna: "set (notna col) = {v. Some v \<in> set col}"
  by (induction col) (auto simp add: notna_def List.map_filter_simps split: option.splits)

lemma series_max_latest:
  assumes "Some hi \<in> set col" and "\<forall>d. Some d \<in> set col \<longrightarrow> d \<le> hi"
  shows "series_max col = Some hi"
proof (cases "notna col")
  case Nil
  with assms(1) set_notna [of col] show ?thesis by simp
next
  case (Cons v vs)
  have s: "set (v # vs) = {d. Some d \<in> set col}"
    using set_notna [of col] Cons by simp
  have "fold max vs v = Max (set (v # vs))"
    by (simp only: Max.set_eq_fold)
  also have "\<dots> = hi"
  proof (rule Max_eqI)
    show "finite (set (v # vs))" by simp
    show "y \<le> hi" if "y \<in> set (v # vs)" for y
      using that s assms(2) by blast
    show "hi \<in> set (v # vs)"
      using s assms(1) by blast
  qed
  finally show ?thesis
    using Cons by (simp add: series_max_def)
qed

lemma series_min_earliest:
  assumes "Some lo \<in> set col" and "\<forall>d. Some d \<in> set col \<longrightarrow> lo \<le> d"
  shows "series_min col = Some lo"
proof (cases "notna col")
  case Nil
  with assms(1) set_notna [of col] show ?thesis by simp
next
  case (Cons v vs)
  have s: "set (v # vs) = {d. Some d \<in> set col}"
    using set_notna [of col] Cons by simp
  have "fold min vs v = Min (set (v # vs))"
    by (simp only: Min.set_eq_fold)
  also have "\<dots> = lo"
  proof (rule Min_eqI)
    show "finite (set (v # vs))" by simp
    show "lo \<le> y" if "y \<in> set (v # vs)" for y
      using that s assms(2) by blast
    show "lo \<in> set (v # vs)"
      using s assms(1) by blast
  qed
  finally show ?thesis
    using Cons by (simp add: series_min_def)
qed

lemma series_max_none: "\<forall>c \<in> set col. c = None \<Longrightarrow> series_max col = None"
  and series_min_none: "\<forall>c \<in> set col. c = None \<Longrightarrow> series_min col = None"
  using set_notna [of col]
  by (cases "notna col"; auto simp add: series_max_def series_min_def)+

lemma eq_cell_Some: "eq_cell a (Some d) \<longleftrightarrow> a = Some d"
  by (cases a) (auto simp add: eq_cell_def)

lemma success_mean_filter:
  "success_mean (filter P df)
   = real (length (filter (\<lambda>r. P r \<and> success r) df)) / real (length (filter P df))"
  by (simp add: success_mean_def)

lemma decade_success:
  assumes "\<exists>r \<in> set df. decade r = Some d"
  shows "(if length (filter (\<lambda>r. decade r = Some d) df) > 0
          then success_mean (filter (\<lambda>r. decade r = Some d) df) * 100 else 0)
         = real (length (filter (\<lambda>r. decade r = Some d \<and> success r) df))
           / real (length (filter (\<lambda>r. decade r = Some d) df)) * 100"
proof -
  from assms have "filter (\<lambda>r. decade r = Some d) df \<noteq> []"
    by (simp add: filter_empty_conv)
  then show ?thesis
    by (simp add: success_mean_filter)
qed

lemma recent_success_latest:
  assumes "\<exists>r \<in> set df. decade r = Some hi"
    and "\<forall>r \<in> set df. \<forall>d. decade r = Some d \<longrightarrow> d \<le> hi"
  shows "recent_success df
         = real (length (filter (\<lambda>r. decade r = Some hi \<and> success r) df))
           / real (length (filter (\<lambda>r. decade r = Some hi) df)) * 100"
proof -
  from assms(1) have "Some hi \<in> set (map decade df)"
    by force
  moreover from assms(2) have "\<forall>d. Some d \<in> set (map decade df) \<longrightarrow> d \<le> hi"
    by force
  ultimately have "series_max (map decade df) = Some hi"
    by (rule series_max_latest)
  then have e: "recent_decade df = filter (\<lambda>r. decade r = Some hi) df"
    by (simp add: recent_decade_def eq_cell_Some)
  show ?thesis
    unfolding recent_success_def e by (rule decade_success [OF assms(1)])
qed

lemma old_success_earliest:
  assumes "\<exists>r \<in> set df. decade r = Some lo"
    and "\<forall>r \<in> set df. \<forall>d. decade r = Some d \<longrightarrow> lo \<le> d"
  shows "old_success df
         = real (length (filter (\<lambda>r. decade r = Some lo \<and> success r) df))
           / real (length (filter (\<lambda>r. decade r = Some lo) df)) * 100"
proof -
  from assms(1) have "Some lo \<in> set (map decade df)"
    by force
  moreover from assms(2) have "\<forall>d. Some d \<in> set (map decade df) \<longrightarrow> lo \<le> d"
    by force
  ultimately have "series_min (map decade df) = Some lo"
    by (rule series_min_earliest)
  then have e: "old_decade df = filter (\<lambda>r. decade r = Some lo) df"
    by (simp add: old_decade_def eq_cell_Some)
  show ?thesis
    unfolding old_success_def e by (rule decade_success [OF assms(1)])
qed

lemma trend_no_decade:
  assumes "\<forall>r \<in> set df. decade r = None"
  shows "trend_text df = ''DECLINED''"
proof -
  from assms have "series_max (map decade df) = None" "series_min (map decade df) = None"
    by (simp_all add: series_max_none series_min_none)
  then show ?thesis
    by (simp add: trend_text_def recent_success_def old_success_def recent_decade_def
        old_decade_def eq_cell_def split: option.splits)
qed

text \<open>
  C10. Let \<open>hi\<close> be the latest decade of the table and \<open>lo\<close> the earliest, and let
  the rate of a decade be the share of its rows that are successes, in percent. Then
  the two numbers the script compares are the rates of \<open>hi\<close> and of \<open>lo\<close>, the label
  is \<^verbatim>\<open>IMPROVED\<close> exactly when the rate of \<open>hi\<close> is strictly greater than the rate of
  \<open>lo\<close>, and it is \<^verbatim>\<open>DECLINED\<close> when the two rates are equal, in particular when the
  table has one decade only. The label is one of the two texts.
\<close>

theorem trend_label:
  "let rate = (\<lambda>d. real (length (filter (\<lambda>r. decade r = Some d \<and> success r) df))
                   / real (length (filter (\<lambda>r. decade r = Some d) df)) * 100)
   in ((\<exists>r \<in> set df. decade r = Some hi) \<and>
       (\<forall>r \<in> set df. \<forall>d. decade r = Some d \<longrightarrow> d \<le> hi) \<and>
       (\<exists>r \<in> set df. decade r = Some lo) \<and>
       (\<forall>r \<in> set df. \<forall>d. decade r = Some d \<longrightarrow> lo \<le> d) \<longrightarrow>
         recent_success df = rate hi \<and>
         old_success df = rate lo \<and>
         (trend_text df = ''IMPROVED'' \<longleftrightarrow> rate lo < rate hi) \<and>
         (rate hi = rate lo \<longrightarrow> trend_text df = ''DECLINED'') \<and>
         (hi = lo \<longrightarrow> trend_text df = ''DECLINED'')) \<and>
      (trend_text df = ''IMPROVED'' \<or> trend_text df = ''DECLINED'')"
proof -
  have "trend_text df = ''IMPROVED'' \<or> trend_text df = ''DECLINED''"
    by (simp add: trend_text_def)
  moreover
  {
    assume h: "\<exists>r \<in> set df. decade r = Some hi"
      "\<forall>r \<in> set df. \<forall>d. decade r = Some d \<longrightarrow> d \<le> hi"
    assume l: "\<exists>r \<in> set df. decade r = Some lo"
      "\<forall>r \<in> set df. \<forall>d. decade r = Some d \<longrightarrow> lo \<le> d"
    note r = recent_success_latest [OF h] and o = old_success_earliest [OF l]
    have "trend_text df = ''IMPROVED'' \<longleftrightarrow> old_success df < recent_success df"
      by (simp add: trend_text_def)
    moreover have "recent_success df = old_success df \<longrightarrow> trend_text df = ''DECLINED''"
      by (simp add: trend_text_def)
    moreover have "hi = lo \<longrightarrow> recent_success df = old_success df"
      using r o by simp
    ultimately have
      "recent_success df
         = real (length (filter (\<lambda>r. decade r = Some hi \<and> success r) df))
           / real (length (filter (\<lambda>r. decade r = Some hi) df)) * 100 \<and>
       old_success df
         = real (length (filter (\<lambda>r. decade r = Some lo \<and> success r) df))
           / real (length (filter (\<lambda>r. decade r = Some lo) df)) * 100 \<and>
       (trend_text df = ''IMPROVED'' \<longleftrightarrow>
          real (length (filter (\<lambda>r. decade r = Some lo \<and> success r) df))
            / real (length (filter (\<lambda>r. decade r = Some lo) df)) * 100
          < real (length (filter (\<lambda>r. decade r = Some hi \<and> success r) df))
            / real (length (filter (\<lambda>r. decade r = Some hi) df)) * 100) \<and>
       (real (length (filter (\<lambda>r. decade r = Some hi \<and> success r) df))
            / real (length (filter (\<lambda>r. decade r = Some hi) df)) * 100
        = real (length (filter (\<lambda>r. decade r = Some lo \<and> success r) df))
            / real (length (filter (\<lambda>r. decade r = Some lo) df)) * 100
          \<longrightarrow> trend_text df = ''DECLINED'') \<and>
       (hi = lo \<longrightarrow> trend_text df = ''DECLINED'')"
      using r o by simp
  }
  ultimately show ?thesis
    unfolding Let_def by blast
qed

lemma example_decades_sel:
  "map decade example_decades = [Some 1960, Some 1970, Some 1980]"
  "map success example_decades = [False, True, False]"
  by (simp_all add: example_decades_def example_mission_sel decade_of_def)

theorem trend_label_witness:
  "recent_success example_decades = 0 \<and>
   old_success example_decades = 0 \<and>
   length (filter success example_decades) = 1 \<and>
   trend_text example_decades = ''DECLINED''"
proof -
  have d: "decade (example_mission y ok) = Some (decade_of y)"
    "success (example_mission y ok) = ok" for y ok
    by (simp_all add: example_mission_sel)
  have h: "(\<exists>r \<in> set example_decades. decade r = Some 1980) \<and>
           (\<forall>r \<in> set example_decades. \<forall>d. decade r = Some d \<longrightarrow> d \<le> 1980) \<and>
           (\<exists>r \<in> set example_decades. decade r = Some 1960) \<and>
           (\<forall>r \<in> set example_decades. \<forall>d. decade r = Some d \<longrightarrow> 1960 \<le> d)"
    by (simp add: example_decades_def d decade_of_def)
  have r: "real (length (filter (\<lambda>r. decade r = Some 1980 \<and> success r) example_decades))
             / real (length (filter (\<lambda>r. decade r = Some 1980) example_decades)) * 100 = 0"
    "real (length (filter (\<lambda>r. decade r = Some 1960 \<and> success r) example_decades))
             / real (length (filter (\<lambda>r. decade r = Some 1960) example_decades)) * 100 = 0"
    by (simp_all add: example_decades_def d decade_of_def)
  from trend_label [of example_decades 1980 1960, unfolded Let_def] h
  have "recent_success example_decades
          = real (length (filter (\<lambda>r. decade r = Some 1980 \<and> success r) example_decades))
            / real (length (filter (\<lambda>r. decade r = Some 1980) example_decades)) * 100"
    and "old_success example_decades
          = real (length (filter (\<lambda>r. decade r = Some 1960 \<and> success r) example_decades))
            / real (length (filter (\<lambda>r. decade r = Some 1960) example_decades)) * 100"
    and "real (length (filter (\<lambda>r. decade r = Some 1980 \<and> success r) example_decades))
            / real (length (filter (\<lambda>r. decade r = Some 1980) example_decades)) * 100
         = real (length (filter (\<lambda>r. decade r = Some 1960 \<and> success r) example_decades))
            / real (length (filter (\<lambda>r. decade r = Some 1960) example_decades)) * 100
         \<longrightarrow> trend_text example_decades = ''DECLINED''"
    by blast+
  with r show ?thesis
    by (simp add: example_decades_def d decade_of_def)
qed

section \<open>Loading and exporting\<close>

lemma and_then_Inr: "and_then (evs, Inr v) f = (evs @ fst (f v), snd (f v))"
  by (simp add: and_then_def split: prod.splits)

lemma and_then_Inl: "and_then (evs, Inl s) f = (evs, Inl s)"
  by (simp add: and_then_def)

lemma no_exit_and_then:
  assumes "no_exit m" and "\<And>v. no_exit (f v)"
  shows "no_exit (and_then m f)"
proof (cases m)
  case (Pair evs r)
  show ?thesis
  proof (cases r)
    case (Inl s)
    with Pair assms(1) show ?thesis by (simp add: and_then_Inl no_exit_def)
  next
    case (Inr v)
    from assms(2) [of v] have "snd (f v) \<noteq> Inl SystemExit" by (simp add: no_exit_def)
    with Pair Inr show ?thesis by (simp add: and_then_Inr no_exit_def)
  qed
qed

lemma no_exit_block: "(\<And>m. m \<in> set ms \<Longrightarrow> no_exit m) \<Longrightarrow> no_exit (block ms)"
  by (induction ms) (auto simp add: no_exit_and_then, simp add: no_exit_def returns_def)

lemma no_exit_call: "no_exit (call evs x)"
  by (cases x) (simp_all add: no_exit_def call_def raise_def)

lemma no_exit_emit: "no_exit (emit ev)"
  by (simp add: no_exit_def emit_def)

lemma no_exit_returns: "no_exit (returns v)"
  by (simp add: no_exit_def returns_def)

lemma try_except_Raised:
  "try_except (evs, Inl (Raised x)) handler =
     (case handler x of None \<Rightarrow> (evs, Inl (Raised x)) | Some h \<Rightarrow> (evs @ fst h, snd h))"
  by (simp add: try_except_def split: option.splits prod.splits)

lemma try_except_Inr: "try_except (evs, Inr v) handler = (evs, Inr v)"
  by (simp add: try_except_def)

lemma try_except_Exit: "try_except (evs, Inl SystemExit) handler = (evs, Inl SystemExit)"
  by (simp add: try_except_def)

lemma try_all_returns:
  assumes "no_exit body" and "\<And>x. \<exists>evs. handler x = Some (evs, Inr ())"
  shows "\<exists>evs. try_except body handler = (evs, Inr ())"
proof (cases body)
  case (Pair evs r)
  show ?thesis
  proof (cases r)
    case (Inr v)
    with Pair show ?thesis by (simp add: try_except_Inr)
  next
    case (Inl s)
    show ?thesis
    proof (cases s)
      case SystemExit
      with Pair Inl assms(1) show ?thesis by (simp add: no_exit_def)
    next
      case (Raised x)
      from assms(2) [of x] obtain evs' where "handler x = Some (evs', Inr ())" by blast
      with Pair Inl Raised show ?thesis by (simp add: try_except_Raised)
    qed
  qed
qed

lemma no_exit_try_import:
  "no_exit body \<Longrightarrow>
   no_exit (try_except body (\<lambda>x. case x of ImportError _ \<Rightarrow> Some (emit ev) | _ \<Rightarrow> None))"
proof (cases body)
  case (Pair evs r)
  assume b: "no_exit body"
  show ?thesis
  proof (cases r)
    case (Inr v)
    with Pair show ?thesis by (simp add: try_except_Inr no_exit_def)
  next
    case (Inl s)
    show ?thesis
    proof (cases s)
      case SystemExit
      with Pair Inl b show ?thesis by (simp add: no_exit_def)
    next
      case (Raised x)
      with Pair Inl show ?thesis
        by (cases x) (simp_all add: try_except_Raised no_exit_def emit_def)
    qed
  qed
qed

lemma no_exit_with_block:
  assumes "no_exit enter" and "no_exit body" and "no_exit leave"
  shows "no_exit (with_block enter body leave)"
  unfolding with_block_def
proof (rule no_exit_and_then [OF assms(1)])
  fix u :: unit
  obtain evs r where b: "body = (evs, r)" by (cases body)
  obtain evs' r' where l: "leave = (evs', r')" by (cases leave)
  from assms(2) b have r: "r \<noteq> Inl SystemExit" by (simp add: no_exit_def)
  from assms(3) l have r': "r' \<noteq> Inl SystemExit" by (simp add: no_exit_def)
  show "no_exit (case body of
                   (evs, Inr v) \<Rightarrow> and_then (evs, Inr v) (\<lambda>_. leave)
                 | (evs, Inl s) \<Rightarrow>
                     (case leave of
                        (evs', Inr v) \<Rightarrow> (evs @ evs', Inl s)
                      | (evs', Inl s') \<Rightarrow> (evs @ evs', Inl s')))"
    using r r' by (cases r; cases r') (simp_all add: b l no_exit_def and_then_Inr)
qed

lemma no_exit_excel_workbook: "no_exit (excel_workbook w)"
  unfolding excel_workbook_def
  by (intro no_exit_with_block no_exit_block no_exit_call)
     (auto simp add: to_excel_def no_exit_call)

lemma export_results_returns: "\<exists>evs. export_results w = (evs, Inr ())"
  unfolding export_results_def
proof (rule try_all_returns)
  show "\<And>x. \<exists>evs. Some (emit (Print (ExportError (message_of x)))) = Some (evs, Inr ())"
    by (simp add: emit_def)
next
  show "no_exit (block
          [ if exports_exists w then returns ()
            else call [MakeDirs ''exports'', Print CreatedExports] (makedirs_exn w),
            export_file w ProcessedCsv,
            export_file w CountryCsv,
            export_file w OrgCsv,
            export_file w YearlyCsv,
            export_file w RocketCsv,
            export_file w SummaryTxt,
            export_file w DecadeCsv,
            try_except
              (and_then (excel_workbook w) (\<lambda>_. emit (Print (Exported excel_file))))
              (\<lambda>x. case x of ImportError _ \<Rightarrow> Some (emit (Print ExcelSkipped)) | _ \<Rightarrow> None),
            emit (Print Rule), emit (Print AllSaved), emit (Print Rule) ])"
    by (rule no_exit_block)
       (auto simp add: no_exit_call no_exit_emit no_exit_returns export_file_def
          no_exit_try_import no_exit_and_then no_exit_excel_workbook)
qed

lemmas run_simps = and_then_Inr and_then_Inl try_except_Inr try_except_Raised try_except_Exit
  emit_def returns_def raise_def sys_exit_def call_def

lemma load_ok:
  "read_csv w = Inr rows \<Longrightarrow>
   load w = ([ReadCsv csv_name, Print (Loaded (length rows)), Print OriginalColumns], Inr rows)"
  by (simp add: load_def pd_read_csv_def run_simps)

lemma load_fails:
  "read_csv w = Inl x \<Longrightarrow>
   load w = (ReadCsv csv_name #
              (case x of FileNotFoundError _ \<Rightarrow> [Print CsvNotFound, Print CsvHint]
               | _ \<Rightarrow> [Print (CsvError (message_of x))]),
             Inl SystemExit)"
  by (cases x) (simp_all add: load_def pd_read_csv_def run_simps)

lemma main_load_fails:
  "read_csv w = Inl x \<Longrightarrow>
   main w = ([Print Rule, Print Title, Print LoadingData, Print Rule, Print LoadingFile,
              ReadCsv csv_name]
             @ (case x of FileNotFoundError _ \<Rightarrow> [Print CsvNotFound, Print CsvHint]
                | _ \<Rightarrow> [Print (CsvError (message_of x))]),
            Inl SystemExit)"
  by (simp add: main_def load_fails run_simps)

lemma main_analysis_fails:
  "read_csv w = Inr rows \<Longrightarrow> analysis_exn w (clean (parser w) rows) = Some e \<Longrightarrow>
   main w = ([Print Rule, Print Title, Print LoadingData, Print Rule, Print LoadingFile,
              ReadCsv csv_name, Print (Loaded (length rows)), Print OriginalColumns],
             Inl (Raised e))"
  by (simp add: main_def load_ok run_simps)

lemma main_runs_export:
  "read_csv w = Inr rows \<Longrightarrow> analysis_exn w (clean (parser w) rows) = None \<Longrightarrow>
   main w = ([Print Rule, Print Title, Print LoadingData, Print Rule, Print LoadingFile,
              ReadCsv csv_name, Print (Loaded (length rows)), Print OriginalColumns,
              Print Rule, Print Exporting, Print Rule]
             @ fst (export_results w) @ [Print Farewell],
             Inr ())"
  using export_results_returns [of w]
  by (auto simp add: main_def load_ok run_simps)

lemma main_exit_iff: "snd (main w) = Inl SystemExit \<longleftrightarrow> (\<exists>e. read_csv w = Inl e)"
proof (cases "read_csv w")
  case (Inl x)
  then show ?thesis by (simp add: main_load_fails)
next
  case (Inr rows)
  then show ?thesis
    by (cases "analysis_exn w (clean (parser w) rows)")
       (simp_all add: main_runs_export main_analysis_fails)
qed



lemma ensure_dir:
  "exports_exists w \<or> makedirs_exn w = None \<Longrightarrow>
   (if exports_exists w then returns ()
    else call [MakeDirs ''exports'', Print CreatedExports] (makedirs_exn w))
   = (dir_events w, Inr ())"
  by (auto simp add: dir_events_def run_simps)

lemma export_file_ok: "export_exn w a = None \<Longrightarrow> export_file w a = (exported a, Inr ())"
  by (simp add: export_file_def exported_def call_def)


lemma to_excel_ok: "to_excel_exn w sh = None \<Longrightarrow> to_excel w sh = ([], Inr ())"
  by (simp add: to_excel_def call_def)





lemma workbook_saved:
  assumes "excel_writer_exn w = None" and "\<forall>sh. to_excel_exn w sh = None"
    and "excel_save_exn w = None"
  shows "excel_workbook w = ([OpenFile excel_file, WriteFile excel_file], Inr ())"
  using assms
  by (simp add: excel_workbook_def with_block_def to_excel_ok run_simps)



lemma export_all_written:
  assumes d: "exports_exists w \<or> makedirs_exn w = None"
    and f: "\<forall>a. export_exn w a = None"
    and b: "excel_workbook w = (evs, Inr ())"
  shows "export_results w
         = (files_events w @ evs
            @ [Print (Exported excel_file), Print Rule, Print AllSaved, Print Rule], Inr ())"
  using f
  by (simp add: export_results_def ensure_dir [OF d] export_file_ok b files_events_def
      artifacts_def run_simps)



text \<open>
  C7. When \<^verbatim>\<open>pd.read_csv\<close> raises, for a missing file or for any other reason, the
  script prints its report and ends at once by \<^verbatim>\<open>exit()\<close>: the file was read once,
  nothing is written and no directory is made. The script ends by \<^verbatim>\<open>exit()\<close> in no
  other case, and an exception raised on the cleaned table after the load and before
  the export stage is not caught: it ends the script with no report of the script's own.
\<close>

theorem load_failure_exits:
  "(read_csv w = Inl x \<longrightarrow>
      main w = ([Print Rule, Print Title, Print LoadingData, Print Rule, Print LoadingFile,
                 ReadCsv csv_name]
                @ (case x of FileNotFoundError _ \<Rightarrow> [Print CsvNotFound, Print CsvHint]
                   | _ \<Rightarrow> [Print (CsvError (message_of x))]),
                Inl SystemExit) \<and>
      outputs (fst (main w)) = [] \<and> reads (fst (main w)) = [csv_name]) \<and>
   (snd (main w) = Inl SystemExit \<longleftrightarrow> (\<exists>e. read_csv w = Inl e)) \<and>
   (read_csv w = Inr rows \<and> analysis_exn w (clean (parser w) rows) = Some e \<longrightarrow>
      main w = ([Print Rule, Print Title, Print LoadingData, Print Rule, Print LoadingFile,
                 ReadCsv csv_name, Print (Loaded (length rows)), Print OriginalColumns],
                Inl (Raised e)))"
proof (intro conjI impI)
  assume f: "read_csv w = Inl x"
  show "main w = ([Print Rule, Print Title, Print LoadingData, Print Rule, Print LoadingFile,
                   ReadCsv csv_name]
                  @ (case x of FileNotFoundError _ \<Rightarrow> [Print CsvNotFound, Print CsvHint]
                     | _ \<Rightarrow> [Print (CsvError (message_of x))]),
                  Inl SystemExit)"
    by (rule main_load_fails [OF f])
  show "outputs (fst (main w)) = []"
    by (cases x) (simp_all add: main_load_fails [OF f] outputs_def)
  show "reads (fst (main w)) = [csv_name]"
    by (cases x) (simp_all add: main_load_fails [OF f] reads_def)
next
  show "snd (main w) = Inl SystemExit \<longleftrightarrow> (\<exists>e. read_csv w = Inl e)"
    by (rule main_exit_iff)
next
  assume "read_csv w = Inr rows \<and> analysis_exn w (clean (parser w) rows) = Some e"
  then show "main w = ([Print Rule, Print Title, Print LoadingData, Print Rule,
                        Print LoadingFile, ReadCsv csv_name, Print (Loaded (length rows)),
                        Print OriginalColumns],
                       Inl (Raised e))"
    by (simp add: main_analysis_fails)
qed

theorem load_failure_exits_witness:
  "main (example_world\<lparr>read_csv := Inl (FileNotFoundError ''mission_launches.csv'')\<rparr>)
     = ([Print Rule, Print Title, Print LoadingData, Print Rule, Print LoadingFile,
         ReadCsv ''mission_launches.csv'', Print CsvNotFound, Print CsvHint],
        Inl SystemExit) \<and>
   outputs (fst (main (example_world\<lparr>read_csv := Inl (OtherError ''No columns to parse'')\<rparr>)))
     = [] \<and>
   main (example_world\<lparr>read_csv := Inl (OtherError ''No columns to parse'')\<rparr>)
     = ([Print Rule, Print Title, Print LoadingData, Print Rule, Print LoadingFile,
         ReadCsv ''mission_launches.csv'', Print (CsvError ''No columns to parse'')],
        Inl SystemExit) \<and>
   main (example_world\<lparr>read_csv := Inr [],
           analysis_exn := (\<lambda>df. if df = [] then Some (OtherError ''empty sequence'') else None)\<rparr>)
     = ([Print Rule, Print Title, Print LoadingData, Print Rule, Print LoadingFile,
         ReadCsv ''mission_launches.csv'', Print (Loaded 0), Print OriginalColumns],
        Inl (Raised (OtherError ''empty sequence'')))"
proof -
  let ?w1 = "example_world\<lparr>read_csv := Inl (FileNotFoundError ''mission_launches.csv'')\<rparr>"
  let ?w2 = "example_world\<lparr>read_csv := Inl (OtherError ''No columns to parse'')\<rparr>"
  let ?w3 = "example_world\<lparr>read_csv := Inr [],
           analysis_exn := (\<lambda>df. if df = [] then Some (OtherError ''empty sequence'') else None)\<rparr>"
  have a: "read_csv ?w1 = Inl (FileNotFoundError ''mission_launches.csv'')"
    by simp
  have b: "read_csv ?w2 = Inl (OtherError ''No columns to parse'')"
    by simp
  have c: "read_csv ?w3 = Inr [] \<and>
           analysis_exn ?w3 (clean (parser ?w3) []) = Some (OtherError ''empty sequence'')"
    by (simp add: clean_eq)
  from load_failure_exits [of ?w1 "FileNotFoundError ''mission_launches.csv''"] a
  have "main ?w1
     = ([Print Rule, Print Title, Print LoadingData, Print Rule, Print LoadingFile,
         ReadCsv csv_name]
        @ (case FileNotFoundError ''mission_launches.csv'' of
             FileNotFoundError _ \<Rightarrow> [Print CsvNotFound, Print CsvHint]
           | _ \<Rightarrow> [Print (CsvError (message_of (FileNotFoundError ''mission_launches.csv'')))]),
        Inl SystemExit)"
    by blast
  moreover
  from load_failure_exits [of ?w2 "OtherError ''No columns to parse''"] b
  have "main ?w2
     = ([Print Rule, Print Title, Print LoadingData, Print Rule, Print LoadingFile,
         ReadCsv csv_name]
        @ (case OtherError ''No columns to parse'' of
             FileNotFoundError _ \<Rightarrow> [Print CsvNotFound, Print CsvHint]
           | _ \<Rightarrow> [Print (CsvError (message_of (OtherError ''No columns to parse'')))]),
        Inl SystemExit)"
    and "outputs (fst (main ?w2)) = []"
    by blast+
  moreover
  from load_failure_exits [of ?w3 _ "[]" "OtherError ''empty sequence''"] c
  have "main ?w3
     = ([Print Rule, Print Title, Print LoadingData, Print Rule, Print LoadingFile,
         ReadCsv csv_name, Print (Loaded (length ([] :: csv_row list))), Print OriginalColumns],
        Inl (Raised (OtherError ''empty sequence'')))"
    by blast
  ultimately show ?thesis
    by (simp add: csv_name_def)
qed




end
